theory Spec2Isabelle
  imports Main "HOL-Library.Word"
begin

section \<open>JavaScript values\<close>

text \<open>
  The repository holds two small functions, \<open>safeJSON\<close> and \<open>validateForm\<close>, each in two
  source variants. Both are thin wrappers around the language's \<open>JSON.parse\<close> and
  \<open>JSON.stringify\<close>, so the embedding starts with the values these built-ins work on.

  A string is a sequence of 16-bit code units. \<open>lit\<close> turns an Isabelle string literal
  (characters 0 to 255) into such a sequence.
\<close>

type_synonym code_unit = "16 word"
type_synonym jsstring = "code_unit list"

definition lit :: "string \<Rightarrow> jsstring" where
  "lit s = map of_char s"

text \<open>
  A finite number \<open>Dec m e\<close> stands for the decimal \<open>m * 10^e\<close>; the lexer below produces
  mantissas without trailing zeros, so that equal decimals are equal terms. Rounding to
  binary floating point, overflow to infinity and the sign of zero are outside the model:
  it agrees with an engine on decimals of up to 15 significant digits in double range.
\<close>

datatype number = Dec int int | NaN | PosInfinity | NegInfinity

text \<open>
  Objects are plain data objects: an association list of own enumerable string-keyed
  properties in property order. \<open>File\<close> is the file object of a form field as the web
  platform defines it (no own enumerable properties). Functions, symbols, accessor properties and
  cyclic objects are not modelled.
\<close>

datatype jsval =
    Undefined
  | Null
  | Bool bool
  | Num number
  | BigInt int
  | Str jsstring
  | Arr "jsval list"
  | Obj "(jsstring \<times> jsval) list"
  | File jsstring

datatype error = SyntaxError | TypeError

subsection \<open>Numbers and their decimal text\<close>

function digits_of :: "int \<Rightarrow> jsstring" where
  "digits_of n =
     (if n < 10 then [word_of_int (48 + n)]
      else digits_of (n div 10) @ [word_of_int (48 + n mod 10)])"
  by pat_completeness auto
termination
  by (relation "measure nat") auto

definition is_digit :: "code_unit \<Rightarrow> bool" where
  "is_digit c \<longleftrightarrow> 0x30 \<le> c \<and> c \<le> 0x39"

definition digit_val :: "code_unit \<Rightarrow> int" where
  "digit_val c = uint c - 48"

definition int_of_digits :: "jsstring \<Rightarrow> int" where
  "int_of_digits ds = foldl (\<lambda>a c. 10 * a + digit_val c) 0 ds"

definition strip_zeros :: "jsstring \<Rightarrow> jsstring" where
  "strip_zeros ds = rev (dropWhile (\<lambda>c. c = 0x30) (rev ds))"

text \<open>
  The value of a number literal with sign \<open>neg\<close>, digit string \<open>ds\<close> (integer and fraction
  digits together) and decimal exponent \<open>e\<close>.
\<close>

definition decimal :: "bool \<Rightarrow> jsstring \<Rightarrow> int \<Rightarrow> number" where
  "decimal neg ds e =
     (let ds' = strip_zeros ds; m = int_of_digits ds'
      in if m = 0 then Dec 0 0
         else Dec (if neg then - m else m) (e + int (length ds - length ds')))"

text \<open>
  \<open>Number::toString\<close> in radix 10: with \<open>k\<close> significant digits \<open>s\<close> and the decimal point
  after digit \<open>n\<close>, the four layouts of the language definition (plain integer, decimal
  point inside, leading \<open>0.\<close>, exponent notation).
\<close>

fun NumberToString :: "number \<Rightarrow> jsstring" where
  "NumberToString NaN = lit ''NaN''"
| "NumberToString PosInfinity = lit ''Infinity''"
| "NumberToString NegInfinity = lit ''-Infinity''"
| "NumberToString (Dec m e) =
     (if m = 0 then lit ''0''
      else
        let d = digits_of \<bar>m\<bar>;
            s = strip_zeros d;
            k = int (length s);
            n = int (length d) + e;
            body =
              (if k \<le> n \<and> n \<le> 21 then s @ replicate (nat (n - k)) 0x30
               else if 0 < n \<and> n \<le> 21 then take (nat n) s @ lit ''.'' @ drop (nat n) s
               else if - 6 < n \<and> n \<le> 0 then lit ''0.'' @ replicate (nat (- n)) 0x30 @ s
               else
                 (if k = 1 then s else take 1 s @ lit ''.'' @ drop 1 s) @ lit ''e''
                   @ (if 0 \<le> n - 1 then lit ''+'' else lit ''-'')
                   @ digits_of \<bar>n - 1\<bar>)
        in (if m < 0 then lit ''-'' else []) @ body)"

definition int_digits :: "int \<Rightarrow> jsstring" where
  "int_digits i = (if i < 0 then lit ''-'' else []) @ digits_of \<bar>i\<bar>"

subsection \<open>Property order of an object\<close>

text \<open>
  Own property keys are listed with the array indices first, in ascending numeric order,
  and then the other string keys in creation order. \<open>CreateDataProperty\<close> overwrites the
  value of a key that exists and keeps its place.
\<close>

definition array_index :: "jsstring \<Rightarrow> int option" where
  "array_index k =
     (if k \<noteq> [] \<and> list_all is_digit k \<and> \<not> (hd k = 0x30 \<and> 1 < length k)
         \<and> int_of_digits k < 4294967295
      then Some (int_of_digits k) else None)"

fun insert_index ::
  "int \<Rightarrow> jsstring \<Rightarrow> jsval \<Rightarrow> (jsstring \<times> jsval) list \<Rightarrow> (jsstring \<times> jsval) list" where
  "insert_index i k v [] = [(k, v)]"
| "insert_index i k v ((k', v') # ps) =
     (case array_index k' of
        None \<Rightarrow> (k, v) # (k', v') # ps
      | Some j \<Rightarrow> if i < j then (k, v) # (k', v') # ps else (k', v') # insert_index i k v ps)"

fun replace_value ::
  "jsstring \<Rightarrow> jsval \<Rightarrow> (jsstring \<times> jsval) list \<Rightarrow> (jsstring \<times> jsval) list" where
  "replace_value k v [] = []"
| "replace_value k v ((k', v') # ps) =
     (if k' = k then (k', v) # ps else (k', v') # replace_value k v ps)"

definition CreateDataProperty ::
  "(jsstring \<times> jsval) list \<Rightarrow> jsstring \<Rightarrow> jsval \<Rightarrow> (jsstring \<times> jsval) list" where
  "CreateDataProperty ps k v =
     (if map_of ps k \<noteq> None then replace_value k v ps
      else case array_index k of
             None \<Rightarrow> ps @ [(k, v)]
           | Some i \<Rightarrow> insert_index i k v ps)"

section \<open>JSON.parse\<close>

text \<open>
  \<open>JSON.parse(text)\<close> converts its argument to a string, splits it into the tokens of the
  JSON grammar and builds the value. Any text outside the grammar raises \<open>SyntaxError\<close>.
\<close>

datatype token =
    LBracket | RBracket | LBrace | RBrace | Colon | Comma
  | TString jsstring | TNumber number | TTrue | TFalse | TNull

definition is_ws :: "code_unit \<Rightarrow> bool" where
  "is_ws c \<longleftrightarrow> c = 0x09 \<or> c = 0x0A \<or> c = 0x0D \<or> c = 0x20"

definition hex_val :: "code_unit \<Rightarrow> int option" where
  "hex_val c =
     (if 0x30 \<le> c \<and> c \<le> 0x39 then Some (uint c - 48)
      else if 0x41 \<le> c \<and> c \<le> 0x46 then Some (uint c - 55)
      else if 0x61 \<le> c \<and> c \<le> 0x66 then Some (uint c - 87)
      else None)"

definition hex4 :: "code_unit \<Rightarrow> code_unit \<Rightarrow> code_unit \<Rightarrow> code_unit \<Rightarrow> code_unit option" where
  "hex4 a b c d =
     (case (hex_val a, hex_val b, hex_val c, hex_val d) of
        (Some x, Some y, Some z, Some w) \<Rightarrow> Some (word_of_int (((x * 16 + y) * 16 + z) * 16 + w))
      | _ \<Rightarrow> None)"

text \<open>The single-character escapes: quote, backslash, slash, b, f, n, r, t.\<close>

definition escape_char :: "code_unit \<Rightarrow> code_unit option" where
  "escape_char e =
     (if e = 0x22 then Some 0x22
      else if e = 0x5C then Some 0x5C
      else if e = 0x2F then Some 0x2F
      else if e = 0x62 then Some 0x08
      else if e = 0x66 then Some 0x0C
      else if e = 0x6E then Some 0x0A
      else if e = 0x72 then Some 0x0D
      else if e = 0x74 then Some 0x09
      else None)"

definition cons_char ::
  "code_unit \<Rightarrow> (jsstring \<times> jsstring) option \<Rightarrow> (jsstring \<times> jsstring) option" where
  "cons_char c r = map_option (\<lambda>(s, rest). (c # s, rest)) r"

text \<open>
  The characters of a string token after its opening quote: the string's value and the
  text after the closing quote. A control character, a bad escape or a missing closing
  quote is an error.
\<close>

fun string_chars :: "jsstring \<Rightarrow> (jsstring \<times> jsstring) option" where
  "string_chars [] = None"
| "string_chars (c # cs) =
     (if c = 0x22 then Some ([], cs)
      else if c = 0x5C then
        (case cs of
           [] \<Rightarrow> None
         | e # cs' \<Rightarrow>
             if e = 0x75 then
               (case cs' of
                  h3 # h2 # h1 # h0 # cs'' \<Rightarrow>
                    (case hex4 h3 h2 h1 h0 of
                       None \<Rightarrow> None
                     | Some u \<Rightarrow> cons_char u (string_chars cs''))
                | _ \<Rightarrow> None)
             else
               (case escape_char e of
                  None \<Rightarrow> None
                | Some u \<Rightarrow> cons_char u (string_chars cs')))
      else if c < 0x20 then None
      else cons_char c (string_chars cs))"

text \<open>
  A number token: an optional minus, an integer part without a superfluous leading zero,
  an optional fraction and an optional exponent.
\<close>

definition lex_int :: "jsstring \<Rightarrow> (jsstring \<times> jsstring) option" where
  "lex_int cs =
     (let ip = takeWhile is_digit cs
      in if ip = [] \<or> (hd ip = 0x30 \<and> 1 < length ip) then None
         else Some (ip, dropWhile is_digit cs))"

definition lex_frac :: "jsstring \<Rightarrow> (jsstring \<times> jsstring) option" where
  "lex_frac cs =
     (case cs of
        [] \<Rightarrow> Some ([], cs)
      | c # cs' \<Rightarrow>
          if c = 0x2E then
            (if takeWhile is_digit cs' = [] then None
             else Some (takeWhile is_digit cs', dropWhile is_digit cs'))
          else Some ([], cs))"

definition lex_exp_digits :: "bool \<Rightarrow> jsstring \<Rightarrow> (int \<times> jsstring) option" where
  "lex_exp_digits neg cs =
     (if takeWhile is_digit cs = [] then None
      else Some ((if neg then - int_of_digits (takeWhile is_digit cs)
                  else int_of_digits (takeWhile is_digit cs)),
                 dropWhile is_digit cs))"

definition lex_exp :: "jsstring \<Rightarrow> (int \<times> jsstring) option" where
  "lex_exp cs =
     (case cs of
        [] \<Rightarrow> Some (0, cs)
      | c # cs' \<Rightarrow>
          if c = 0x65 \<or> c = 0x45 then
            (case cs' of
               [] \<Rightarrow> None
             | s # cs'' \<Rightarrow>
                 if s = 0x2D then lex_exp_digits True cs''
                 else if s = 0x2B then lex_exp_digits False cs''
                 else lex_exp_digits False cs')
          else Some (0, cs))"

definition lex_unsigned :: "bool \<Rightarrow> jsstring \<Rightarrow> (number \<times> jsstring) option" where
  "lex_unsigned neg cs =
     (case lex_int cs of
        None \<Rightarrow> None
      | Some (ip, cs1) \<Rightarrow>
          (case lex_frac cs1 of
             None \<Rightarrow> None
           | Some (fp, cs2) \<Rightarrow>
               (case lex_exp cs2 of
                  None \<Rightarrow> None
                | Some (ev, cs3) \<Rightarrow> Some (decimal neg (ip @ fp) (ev - int (length fp)), cs3))))"

definition lex_number :: "jsstring \<Rightarrow> (number \<times> jsstring) option" where
  "lex_number cs =
     (case cs of
        [] \<Rightarrow> None
      | c # cs' \<Rightarrow> if c = 0x2D then lex_unsigned True cs' else lex_unsigned False cs)"

text \<open>Every token consumes input, which is what makes the lexer terminate.\<close>

lemma string_chars_length:
  "string_chars cs = Some (s, rest) \<Longrightarrow> length rest < length cs"
proof (induction cs arbitrary: s rule: string_chars.induct)
  case 1
  then show ?case by simp
next
  case (2 c cs)
  then show ?case
    by (auto simp: cons_char_def split: if_splits list.splits option.splits) force+
qed

lemma dropWhile_shorter:
  "takeWhile P xs \<noteq> [] \<Longrightarrow> length (dropWhile P xs) < length xs"
  by (induction xs) (auto simp: le_imp_less_Suc length_dropWhile_le split: if_splits)

lemma lex_int_length: "lex_int cs = Some (ip, rest) \<Longrightarrow> length rest < length cs"
  by (auto simp: lex_int_def Let_def dropWhile_shorter split: if_splits)

lemma lex_frac_length: "lex_frac cs = Some (fp, rest) \<Longrightarrow> length rest \<le> length cs"
  by (auto simp: lex_frac_def le_SucI length_dropWhile_le split: list.splits if_splits)

lemma lex_exp_digits_length:
  "lex_exp_digits neg cs = Some (ev, rest) \<Longrightarrow> length rest \<le> length cs"
  by (auto simp: lex_exp_digits_def length_dropWhile_le split: if_splits)

lemma lex_exp_length: "lex_exp cs = Some (ev, rest) \<Longrightarrow> length rest \<le> length cs"
  by (auto simp: lex_exp_def split: list.splits if_splits dest!: lex_exp_digits_length)

lemma lex_unsigned_length:
  "lex_unsigned neg cs = Some (n, rest) \<Longrightarrow> length rest < length cs"
  by (auto simp: lex_unsigned_def split: option.splits
           dest!: lex_int_length lex_frac_length lex_exp_length)

lemma lex_number_length: "lex_number cs = Some (n, rest) \<Longrightarrow> length rest < length cs"
  by (auto simp: lex_number_def split: list.splits if_splits dest!: lex_unsigned_length)

function lex :: "jsstring \<Rightarrow> token list option" where
  "lex [] = Some []"
| "lex (c # cs) =
     (if is_ws c then lex cs
      else if c = 0x5B then map_option ((#) LBracket) (lex cs)
      else if c = 0x5D then map_option ((#) RBracket) (lex cs)
      else if c = 0x7B then map_option ((#) LBrace) (lex cs)
      else if c = 0x7D then map_option ((#) RBrace) (lex cs)
      else if c = 0x3A then map_option ((#) Colon) (lex cs)
      else if c = 0x2C then map_option ((#) Comma) (lex cs)
      else if c = 0x22 then
        (case string_chars cs of
           None \<Rightarrow> None
         | Some (s, rest) \<Rightarrow> map_option ((#) (TString s)) (lex rest))
      else if c = 0x2D \<or> is_digit c then
        (case lex_number (c # cs) of
           None \<Rightarrow> None
         | Some (n, rest) \<Rightarrow> map_option ((#) (TNumber n)) (lex rest))
      else if take 4 (c # cs) = lit ''true'' then map_option ((#) TTrue) (lex (drop 3 cs))
      else if take 5 (c # cs) = lit ''false'' then map_option ((#) TFalse) (lex (drop 4 cs))
      else if take 4 (c # cs) = lit ''null'' then map_option ((#) TNull) (lex (drop 3 cs))
      else None)"
  by pat_completeness auto
termination
  by (relation "measure length")
     (auto dest: string_chars_length lex_number_length)

text \<open>
  The grammar over tokens, as a machine with a stack of the arrays and objects that are
  still open. It reads one token at a time, so it is total by recursion on the token list.
\<close>

datatype frame = FArr "jsval list" | FObj "(jsstring \<times> jsval) list" jsstring

datatype pstate =
    PValue "frame list"
  | PArrFirst "frame list"
  | PArrNext "jsval list" "frame list"
  | PObjFirst "frame list"
  | PObjKey "(jsstring \<times> jsval) list" "frame list"
  | PObjColon "(jsstring \<times> jsval) list" jsstring "frame list"
  | PObjNext "(jsstring \<times> jsval) list" "frame list"
  | PEnd jsval

fun deliver :: "jsval \<Rightarrow> frame list \<Rightarrow> pstate" where
  "deliver v [] = PEnd v"
| "deliver v (FArr xs # st) = PArrNext (xs @ [v]) st"
| "deliver v (FObj ps k # st) = PObjNext (CreateDataProperty ps k v) st"

fun start_value :: "frame list \<Rightarrow> token \<Rightarrow> pstate option" where
  "start_value st (TString s) = Some (deliver (Str s) st)"
| "start_value st (TNumber n) = Some (deliver (Num n) st)"
| "start_value st TTrue = Some (deliver (Bool True) st)"
| "start_value st TFalse = Some (deliver (Bool False) st)"
| "start_value st TNull = Some (deliver Null st)"
| "start_value st LBracket = Some (PArrFirst st)"
| "start_value st LBrace = Some (PObjFirst st)"
| "start_value st _ = None"

fun step :: "pstate \<Rightarrow> token \<Rightarrow> pstate option" where
  "step (PValue st) t = start_value st t"
| "step (PArrFirst st) t =
     (if t = RBracket then Some (deliver (Arr []) st) else start_value (FArr [] # st) t)"
| "step (PArrNext xs st) t =
     (if t = Comma then Some (PValue (FArr xs # st))
      else if t = RBracket then Some (deliver (Arr xs) st)
      else None)"
| "step (PObjFirst st) t =
     (case t of
        RBrace \<Rightarrow> Some (deliver (Obj []) st)
      | TString k \<Rightarrow> Some (PObjColon [] k st)
      | _ \<Rightarrow> None)"
| "step (PObjKey ps st) t =
     (case t of TString k \<Rightarrow> Some (PObjColon ps k st) | _ \<Rightarrow> None)"
| "step (PObjColon ps k st) t =
     (if t = Colon then Some (PValue (FObj ps k # st)) else None)"
| "step (PObjNext ps st) t =
     (if t = Comma then Some (PObjKey ps st)
      else if t = RBrace then Some (deliver (Obj ps) st)
      else None)"
| "step (PEnd v) t = None"

fun run :: "pstate \<Rightarrow> token list \<Rightarrow> jsval option" where
  "run (PEnd v) [] = Some v"
| "run _ [] = None"
| "run s (t # ts) = (case step s t of None \<Rightarrow> None | Some s' \<Rightarrow> run s' ts)"

definition parse_text :: "jsstring \<Rightarrow> jsval option" where
  "parse_text text = (case lex text of None \<Rightarrow> None | Some ts \<Rightarrow> run (PValue []) ts)"

subsection \<open>ToString\<close>

text \<open>
  The conversion \<open>JSON.parse\<close> applies to an argument that is not a string. An array is
  joined with commas (\<open>undefined\<close> and \<open>null\<close> elements as empty text); a plain object gives
  \<open>[object Object]\<close>, unless it has an own member named \<open>toString\<close>, which here is never
  callable and makes the conversion raise \<open>TypeError\<close>.
\<close>

fun join :: "jsstring \<Rightarrow> jsstring list \<Rightarrow> jsstring" where
  "join sep [] = []"
| "join sep [x] = x"
| "join sep (x # y # ys) = x @ sep @ join sep (y # ys)"

fun ToString :: "jsval \<Rightarrow> error + jsstring" where
  "ToString Undefined = Inr (lit ''undefined'')"
| "ToString Null = Inr (lit ''null'')"
| "ToString (Bool b) = Inr (if b then lit ''true'' else lit ''false'')"
| "ToString (Num n) = Inr (NumberToString n)"
| "ToString (BigInt i) = Inr (int_digits i)"
| "ToString (Str s) = Inr s"
| "ToString (Arr xs) =
     (let rs = map (\<lambda>x. if x = Undefined \<or> x = Null then Inr [] else ToString x) xs
      in if list_ex isl rs then Inl TypeError
         else Inr (join (lit '','') (map (\<lambda>r. case r of Inr s \<Rightarrow> s | Inl e \<Rightarrow> []) rs)))"
| "ToString (Obj ps) =
     (if map_of ps (lit ''toString'') = None then Inr (lit ''[object Object]'')
      else Inl TypeError)"
| "ToString (File name) = Inr (lit ''[object File]'')"

definition JSON_parse :: "jsval \<Rightarrow> error + jsval" where
  "JSON_parse text =
     (case ToString text of
        Inl e \<Rightarrow> Inl e
      | Inr s \<Rightarrow> (case parse_text s of None \<Rightarrow> Inl SyntaxError | Some v \<Rightarrow> Inr v))"

section \<open>JSON.stringify\<close>

text \<open>
  \<open>JSON.stringify(value)\<close> with no replacer and no indentation. A string is quoted with
  the short escapes, four-digit escapes for the other control characters and for lone
  surrogates, and everything else as it is. \<open>undefined\<close> has no JSON text: as an array
  element it is written \<open>null\<close>, as an object member it is left out, and at the top the
  result is \<open>undefined\<close>. A \<open>BigInt\<close> raises \<open>TypeError\<close>.
\<close>

definition hex_digit :: "int \<Rightarrow> code_unit" where
  "hex_digit n = (if n < 10 then word_of_int (48 + n) else word_of_int (87 + n))"

definition UnicodeEscape :: "code_unit \<Rightarrow> jsstring" where
  "UnicodeEscape c =
     [0x5C, 0x75, hex_digit (uint c div 4096), hex_digit (uint c div 256 mod 16),
      hex_digit (uint c div 16 mod 16), hex_digit (uint c mod 16)]"

definition is_lead :: "code_unit \<Rightarrow> bool" where
  "is_lead c \<longleftrightarrow> 0xD800 \<le> c \<and> c \<le> 0xDBFF"

definition is_trail :: "code_unit \<Rightarrow> bool" where
  "is_trail c \<longleftrightarrow> 0xDC00 \<le> c \<and> c \<le> 0xDFFF"

definition quote_unit :: "code_unit \<Rightarrow> jsstring" where
  "quote_unit c =
     (if c = 0x08 then [0x5C, 0x62]
      else if c = 0x09 then [0x5C, 0x74]
      else if c = 0x0A then [0x5C, 0x6E]
      else if c = 0x0C then [0x5C, 0x66]
      else if c = 0x0D then [0x5C, 0x72]
      else if c = 0x22 then [0x5C, 0x22]
      else if c = 0x5C then [0x5C, 0x5C]
      else if c < 0x20 \<or> is_lead c \<or> is_trail c then UnicodeEscape c
      else [c])"

fun quote_units :: "jsstring \<Rightarrow> jsstring" where
  "quote_units [] = []"
| "quote_units [c] = quote_unit c"
| "quote_units (c # d # cs) =
     (if is_lead c \<and> is_trail d then c # d # quote_units cs
      else quote_unit c @ quote_units (d # cs))"

definition QuoteJSONString :: "jsstring \<Rightarrow> jsstring" where
  "QuoteJSONString s = [0x22] @ quote_units s @ [0x22]"

fun SerializeJSONProperty :: "jsval \<Rightarrow> error + jsstring option" where
  "SerializeJSONProperty Undefined = Inr None"
| "SerializeJSONProperty Null = Inr (Some (lit ''null''))"
| "SerializeJSONProperty (Bool b) = Inr (Some (if b then lit ''true'' else lit ''false''))"
| "SerializeJSONProperty (Num n) =
     Inr (Some (case n of Dec m e \<Rightarrow> NumberToString n | _ \<Rightarrow> lit ''null''))"
| "SerializeJSONProperty (BigInt i) = Inl TypeError"
| "SerializeJSONProperty (Str s) = Inr (Some (QuoteJSONString s))"
| "SerializeJSONProperty (Arr xs) =
     (let rs = map SerializeJSONProperty xs
      in if list_ex isl rs then Inl TypeError
         else Inr (Some (lit ''['' @ join (lit '','')
                (map (\<lambda>r. case r of Inr (Some s) \<Rightarrow> s | _ \<Rightarrow> lit ''null'') rs) @ lit '']'')))"
| "SerializeJSONProperty (Obj ps) =
     (let rs = map (\<lambda>(k, v). (k, SerializeJSONProperty v)) ps
      in if list_ex (\<lambda>(k, r). isl r) rs then Inl TypeError
         else Inr (Some (lit ''{'' @ join (lit '','')
                (concat (map (\<lambda>(k, r). case r of
                                 Inr (Some s) \<Rightarrow> [QuoteJSONString k @ lit '':'' @ s]
                               | _ \<Rightarrow> []) rs))
                @ lit ''}'')))"
| "SerializeJSONProperty (File name) = Inr (Some (lit ''{}''))"

definition JSON_stringify :: "jsval \<Rightarrow> error + jsval" where
  "JSON_stringify v =
     (case SerializeJSONProperty v of
        Inl e \<Rightarrow> Inl e
      | Inr None \<Rightarrow> Inr Undefined
      | Inr (Some s) \<Rightarrow> Inr (Str s))"

section \<open>safeJSON\<close>

text \<open>
  \<^verbatim>\<open>src/util/safeJSON.ts\<close>:
  \<^verbatim>\<open>try { result = JSON.parse(JSON.stringify(value)); } catch { return value; } return result;\<close>
  The \<open>catch\<close> clause has no binding and no condition: whatever either call raises, the
  function returns \<open>value\<close>. So the function returns a value on every path, and its type
  here has no error alternative.
\<close>

definition safeJSON :: "jsval \<Rightarrow> jsval" where
  "safeJSON v =
     (case JSON_stringify v of
        Inl e \<Rightarrow> v
      | Inr text \<Rightarrow> (case JSON_parse text of Inl e \<Rightarrow> v | Inr result \<Rightarrow> result))"

text \<open>
  The second source variant (the unnamed source file \<^verbatim>\<open>part_000\<close>):
  \<^verbatim>\<open>try { result = JSON.parse(value); } catch { return value; } return result;\<close>
\<close>

definition safeJSON_part_000 :: "jsval \<Rightarrow> jsval" where
  "safeJSON_part_000 v = (case JSON_parse v of Inl e \<Rightarrow> v | Inr result \<Rightarrow> result)"

text \<open>A value is valid JSON text when it is a string that \<open>JSON.parse\<close> accepts.\<close>

definition valid_JSON_text :: "jsval \<Rightarrow> bool" where
  "valid_JSON_text v = (case v of Str s \<Rightarrow> parse_text s \<noteq> None | _ \<Rightarrow> False)"

section \<open>validateForm\<close>

text \<open>
  An \<open>await\<close>ed promise has settled: it is rejected with a reason or fulfilled with a
  value. An \<open>async\<close> function that awaits a rejected promise outside any \<open>try\<close> is itself
  rejected with the same reason.
\<close>

datatype ('r, 'a) Promise = Rejected 'r | Fulfilled 'a

text \<open>
  A form container is an ordered list of named entries, each a string or a file;
  \<open>get\<close> returns the first entry of that name, or \<open>null\<close>.
\<close>

datatype FormDataEntryValue = Text jsstring | Blob jsstring

type_synonym FormData = "(jsstring \<times> FormDataEntryValue) list"

definition FormData_get :: "FormData \<Rightarrow> jsstring \<Rightarrow> jsval" where
  "FormData_get fd name =
     (case map_of fd name of
        None \<Rightarrow> Null
      | Some (Text s) \<Rightarrow> Str s
      | Some (Blob f) \<Rightarrow> File f)"

text \<open>
  The request and the schema are collaborators from outside the repository. Of a request
  the function uses only the outcome of \<open>request.formData()\<close>; of a schema only
  \<open>safeParse\<close>, which returns a success with data or a failure with error details.
\<close>

record 'r Request =
  formData :: "('r, FormData) Promise"

datatype 'e SafeParseReturnType = SafeParseSuccess jsval | SafeParseError 'e

record 'e ZodType =
  safeParse :: "jsval \<Rightarrow> 'e SafeParseReturnType"

text \<open>
  The two shapes of the result: \<open>Full parsed fd\<close> is the object
  \<^verbatim>\<open>{ ...parsed, formData }\<close>, \<open>Minimal v\<close> is the bare value of
  \<^verbatim>\<open>parsed.success ? parsed.data : undefined\<close>.
\<close>

datatype 'e validateFormReturn =
    Full "'e SafeParseReturnType" FormData
  | Minimal jsval

definition minimal :: "'e SafeParseReturnType \<Rightarrow> jsval" where
  "minimal parsed = (case parsed of SafeParseSuccess d \<Rightarrow> d | SafeParseError e \<Rightarrow> Undefined)"

text \<open>
  \<^verbatim>\<open>src/util/validateForm.ts\<close>, with the optional parameter \<^verbatim>\<open>fullReturn?: boolean\<close>
  as a \<open>bool option\<close>: an omitted argument is \<open>undefined\<close>, which the test
  \<^verbatim>\<open>if (fullReturn)\<close> takes as false.
\<close>

definition validateForm ::
  "'r Request \<Rightarrow> 'e ZodType \<Rightarrow> bool option \<Rightarrow> ('r, 'e validateFormReturn) Promise" where
  "validateForm request schema fullReturn =
     (case formData request of
        Rejected reason \<Rightarrow> Rejected reason
      | Fulfilled fd \<Rightarrow>
          (let parsed = safeParse schema (safeJSON (FormData_get fd (lit ''data'')))
           in if fullReturn = Some True then Fulfilled (Full parsed fd)
              else Fulfilled (Minimal (minimal parsed))))"

text \<open>
  The variant of \<open>validateForm\<close> that \<^verbatim>\<open>src/type/Class.ts\<close> carries, with the default
  parameter \<^verbatim>\<open>fullReturn = true\<close>: an omitted argument takes the default. It imports
  \<open>safeJSON\<close> from the same sibling module.
\<close>

definition validateForm_Class ::
  "'r Request \<Rightarrow> 'e ZodType \<Rightarrow> bool option \<Rightarrow> ('r, 'e validateFormReturn) Promise" where
  "validateForm_Class request schema fullReturn =
     (case formData request of
        Rejected reason \<Rightarrow> Rejected reason
      | Fulfilled fd \<Rightarrow>
          (let data = safeJSON (FormData_get fd (lit ''data''));
               parsed = safeParse schema data
           in if (case fullReturn of None \<Rightarrow> True | Some b \<Rightarrow> b) then Fulfilled (Full parsed fd)
              else Fulfilled (Minimal (minimal parsed))))"

section \<open>Example requests and schemas\<close>

text \<open>
  The request of the documentation's example: the field \<open>data\<close> holds the JSON text of an
  object with the member \<open>id\<close>.
\<close>

definition example_form :: FormData where
  \<open>example_form = [(lit ''data'', Text (lit ''{"id":42}''))]\<close>

definition example_request :: "unit Request" where
  "example_request = \<lparr>formData = Fulfilled example_form\<rparr>"

definition empty_request :: "unit Request" where
  "empty_request = \<lparr>formData = Fulfilled [(lit ''other'', Text (lit ''x''))]\<rparr>"

definition failed_request :: "string Request" where
  "failed_request = \<lparr>formData = Rejected ''Failed to parse body as FormData''\<rparr>"

text \<open>
  Schemas: one that accepts every value as it is, one that accepts objects only (as the
  documentation's \<open>z.object\<close> schema does before it looks at the members), one that accepts
  every value and transforms it to \<open>undefined\<close>, and one that rejects every value.
\<close>

definition any_schema :: "string ZodType" where
  "any_schema = \<lparr>safeParse = SafeParseSuccess\<rparr>"

definition object_schema :: "string ZodType" where
  "object_schema =
     \<lparr>safeParse = (\<lambda>v. case v of Obj ps \<Rightarrow> SafeParseSuccess v
                          | _ \<Rightarrow> SafeParseError ''Expected object'')\<rparr>"

definition undefined_schema :: "string ZodType" where
  "undefined_schema = \<lparr>safeParse = (\<lambda>v. SafeParseSuccess Undefined)\<rparr>"

definition never_schema :: "string ZodType" where
  "never_schema = \<lparr>safeParse = (\<lambda>v. SafeParseError ''Invalid input'')\<rparr>"

section \<open>Quoting a string and reading it back\<close>

lemma hex_val_hex_digit_all: "list_all (\<lambda>n. hex_val (hex_digit n) = Some n) [0..15]"
  by code_simp

lemma hex_val_hex_digit: "0 \<le> n \<Longrightarrow> n < 16 \<Longrightarrow> hex_val (hex_digit n) = Some n"
  using hex_val_hex_digit_all by (simp add: list_all_iff)

lemma nibbles:
  fixes n :: int
  shows "((n div 4096 * 16 + n div 256 mod 16) * 16 + n div 16 mod 16) * 16 + n mod 16 = n"
proof -
  have d1: "n div 256 = n div 16 div 16" by (simp add: zdiv_zmult2_eq)
  have d2: "n div 4096 = n div 256 div 16" by (simp add: zdiv_zmult2_eq)
  have "n div 4096 * 16 + n div 256 mod 16 = n div 256" unfolding d2 by simp
  moreover have "n div 256 * 16 + n div 16 mod 16 = n div 16" unfolding d1 by simp
  moreover have "n div 16 * 16 + n mod 16 = n" by simp
  ultimately show ?thesis by simp
qed

lemma hex4_UnicodeEscape:
  "hex4 (hex_digit (uint c div 4096)) (hex_digit (uint c div 256 mod 16))
        (hex_digit (uint c div 16 mod 16)) (hex_digit (uint c mod 16)) = Some c"
proof -
  have "uint c < 65536" using uint_lt2p [of c] by simp
  then have "uint c div 4096 < 16" by simp
  moreover have "0 \<le> uint c div 4096" by (simp add: pos_imp_zdiv_nonneg_iff)
  ultimately have h3: "hex_val (hex_digit (uint c div 4096)) = Some (uint c div 4096)"
    by (rule hex_val_hex_digit [rotated])
  have h2: "hex_val (hex_digit (uint c div 256 mod 16)) = Some (uint c div 256 mod 16)"
    by (rule hex_val_hex_digit) simp_all
  have h1: "hex_val (hex_digit (uint c div 16 mod 16)) = Some (uint c div 16 mod 16)"
    by (rule hex_val_hex_digit) simp_all
  have h0: "hex_val (hex_digit (uint c mod 16)) = Some (uint c mod 16)"
    by (rule hex_val_hex_digit) simp_all
  show ?thesis
    unfolding hex4_def h3 h2 h1 h0
    by (simp only: prod.case option.case nibbles word_of_int_uint)
qed

text \<open>Whatever \<open>quote_unit\<close> writes for a code unit, \<open>string_chars\<close> reads back as that unit.\<close>

lemma string_chars_quote_unit:
  "string_chars (quote_unit c @ t) = cons_char c (string_chars t)"
proof -
  consider "c = 0x08" | "c = 0x09" | "c = 0x0A" | "c = 0x0C" | "c = 0x0D" | "c = 0x22" | "c = 0x5C"
    | "c \<notin> {0x08, 0x09, 0x0A, 0x0C, 0x0D, 0x22, 0x5C}" "c < 0x20 \<or> is_lead c \<or> is_trail c"
    | "c \<notin> {0x08, 0x09, 0x0A, 0x0C, 0x0D, 0x22, 0x5C}" "\<not> (c < 0x20 \<or> is_lead c \<or> is_trail c)"
    by blast
  then show ?thesis
  proof cases
    case 8
    then have "quote_unit c = UnicodeEscape c" by (simp add: quote_unit_def)
    then show ?thesis
      by (simp add: UnicodeEscape_def hex4_UnicodeEscape)
  next
    case 9
    then have "quote_unit c = [c]" by (simp add: quote_unit_def)
    with 9 show ?thesis by simp
  qed (simp_all add: quote_unit_def escape_char_def)
qed

lemma lead_raw: "is_lead c \<Longrightarrow> c \<noteq> 0x22 \<and> c \<noteq> 0x5C \<and> \<not> c < 0x20"
  by (auto simp: is_lead_def word_le_nat_alt word_less_nat_alt)

lemma trail_raw: "is_trail c \<Longrightarrow> c \<noteq> 0x22 \<and> c \<noteq> 0x5C \<and> \<not> c < 0x20"
  by (auto simp: is_trail_def word_le_nat_alt word_less_nat_alt)

lemma string_chars_quote_units:
  "string_chars (quote_units s @ 0x22 # rest) = Some (s, rest)"
proof (induction s rule: quote_units.induct)
  case 1
  show ?case by simp
next
  case (2 c)
  show ?case by (simp add: string_chars_quote_unit cons_char_def)
next
  case (3 c d cs)
  show ?case
  proof (cases "is_lead c \<and> is_trail d")
    case True
    then have q: "quote_units (c # d # cs) = c # d # quote_units cs" by simp
    from True 3 have ih: "string_chars (quote_units cs @ 0x22 # rest) = Some (cs, rest)" by simp
    from True lead_raw [of c] trail_raw [of d] show ?thesis
      unfolding q by (simp add: cons_char_def ih)
  next
    case False
    then have q: "quote_units (c # d # cs) = quote_unit c @ quote_units (d # cs)" by auto
    from False 3 have ih: "string_chars (quote_units (d # cs) @ 0x22 # rest) = Some (d # cs, rest)"
      by blast
    show ?thesis
      unfolding q
      by (simp only: append_assoc string_chars_quote_unit ih cons_char_def option.map prod.case)
  qed
qed

lemma lex_QuoteJSONString: "lex (QuoteJSONString s) = Some [TString s]"
  by (simp add: QuoteJSONString_def is_ws_def string_chars_quote_units)

lemma parse_text_QuoteJSONString: "parse_text (QuoteJSONString s) = Some (Str s)"
  by (simp add: parse_text_def lex_QuoteJSONString)

section \<open>safeJSON on the simple values\<close>

lemma parse_text_null: "parse_text (lit ''null'') = Some Null"
  by code_simp

lemma parse_text_undefined: "parse_text (lit ''undefined'') = None"
  by code_simp

lemma parse_text_true: "parse_text (lit ''true'') = Some (Bool True)"
  by code_simp

lemma parse_text_false: "parse_text (lit ''false'') = Some (Bool False)"
  by code_simp

lemma parse_text_empty_object: "parse_text (lit ''{}'') = Some (Obj [])"
  by code_simp

lemma parse_text_object_Object: "parse_text (lit ''[object Object]'') = None"
  by code_simp

lemma parse_text_object_File: "parse_text (lit ''[object File]'') = None"
  by code_simp

text \<open>
  The variant that serializes first returns every string as it is: the text it parses is
  the quoted string, never the string's own content.
\<close>

lemma safeJSON_Str: "safeJSON (Str s) = Str s"
  by (simp add: safeJSON_def JSON_stringify_def JSON_parse_def parse_text_QuoteJSONString)

lemma safeJSON_Null: "safeJSON Null = Null"
  by (simp add: safeJSON_def JSON_stringify_def JSON_parse_def parse_text_null)

lemma safeJSON_Undefined: "safeJSON Undefined = Undefined"
  by (simp add: safeJSON_def JSON_stringify_def JSON_parse_def parse_text_undefined)

lemma safeJSON_Bool: "safeJSON (Bool b) = Bool b"
  by (simp add: safeJSON_def JSON_stringify_def JSON_parse_def parse_text_true parse_text_false)

lemma safeJSON_BigInt: "safeJSON (BigInt i) = BigInt i"
  by (simp add: safeJSON_def JSON_stringify_def)

lemma safeJSON_File: "safeJSON (File f) = Obj []"
  by (simp add: safeJSON_def JSON_stringify_def JSON_parse_def parse_text_empty_object)

text \<open>The variant that parses directly returns the parsed structure of every valid text.\<close>

lemma safeJSON_part_000_Str:
  "safeJSON_part_000 (Str s) = (case parse_text s of None \<Rightarrow> Str s | Some v \<Rightarrow> v)"
  by (simp add: safeJSON_part_000_def JSON_parse_def split: option.split)

lemma safeJSON_part_000_Null: "safeJSON_part_000 Null = Null"
  by (simp add: safeJSON_part_000_def JSON_parse_def parse_text_null)

lemma safeJSON_part_000_Undefined: "safeJSON_part_000 Undefined = Undefined"
  by (simp add: safeJSON_part_000_def JSON_parse_def parse_text_undefined)

lemma safeJSON_part_000_Bool: "safeJSON_part_000 (Bool b) = Bool b"
  by (simp add: safeJSON_part_000_def JSON_parse_def parse_text_true parse_text_false)

lemma safeJSON_part_000_Obj: "safeJSON_part_000 (Obj ps) = Obj ps"
  by (simp add: safeJSON_part_000_def JSON_parse_def parse_text_object_Object)

lemma safeJSON_part_000_File: "safeJSON_part_000 (File f) = File f"
  by (simp add: safeJSON_part_000_def JSON_parse_def parse_text_object_File)

lemma FormData_get_absent: "map_of fd name = None \<Longrightarrow> FormData_get fd name = Null"
  by (simp add: FormData_get_def)

lemma FormData_get_defined: "FormData_get fd name \<noteq> Undefined"
  by (simp add: FormData_get_def split: option.split FormDataEntryValue.split)

text \<open>The value handed to the schema is never \<open>undefined\<close>.\<close>

lemma normalized_defined: "safeJSON (FormData_get fd name) \<noteq> Undefined"
  by (simp add: FormData_get_def safeJSON_Null safeJSON_Str safeJSON_File
      split: option.split FormDataEntryValue.split)

lemma example_normalized:
  \<open>safeJSON (FormData_get example_form (lit ''data'')) = Str (lit ''{"id":42}'')\<close>
  by (simp add: example_form_def FormData_get_def safeJSON_Str)

section \<open>Properties of safeJSON\<close>

text \<open>
  The documentation of \<open>validateForm\<close> asks for a \<open>data\<close> field that holds stringified JSON
  and validates it with an object schema. With \<open>safeJSON\<close> as \<^verbatim>\<open>src/util/safeJSON.ts\<close>
  has it, the schema receives the text itself and the documented example is rejected.
\<close>

lemma documented_example_rejected:
  "validateForm example_request object_schema (Some True)
     = Fulfilled (Full (SafeParseError ''Expected object'') example_form)"
  by (simp add: validateForm_def example_request_def example_normalized object_schema_def)

text \<open>
  C1. For every value that is valid JSON text, \<open>safeJSON\<close> returns the parsed structure of
  the text, in both source variants. Evaluated at the text \<^verbatim>\<open>{"id":42}\<close>: the text is
  valid and denotes the object with the member \<open>id\<close> = 42; the variant that parses directly
  returns that object; the variant that serializes first returns the text unchanged.
\<close>

theorem safeJSON_leaves_JSON_text_unparsed:
  \<open>valid_JSON_text (Str (lit ''{"id":42}''))
   \<and> parse_text (lit ''{"id":42}'') = Some (Obj [(lit ''id'', Num (Dec 42 0))])
   \<and> safeJSON_part_000 (Str (lit ''{"id":42}'')) = Obj [(lit ''id'', Num (Dec 42 0))]
   \<and> safeJSON (Str (lit ''{"id":42}'')) = Str (lit ''{"id":42}'')\<close>
  by code_simp

text \<open>
  C2, as stated: the two variants return the same result for every input. They differ on
  an object with a member that JSON cannot represent: serialized and parsed again the
  member \<open>NaN\<close> comes back as \<open>null\<close>; converted to a string the object is no JSON text
  and is passed through.
\<close>

theorem safeJSON_variants_differ_on_object:
  "safeJSON (Obj [(lit ''a'', Num NaN)]) = Obj [(lit ''a'', Null)]
   \<and> safeJSON_part_000 (Obj [(lit ''a'', Num NaN)]) = Obj [(lit ''a'', Num NaN)]
   \<and> safeJSON (Obj [(lit ''a'', Num NaN)]) \<noteq> safeJSON_part_000 (Obj [(lit ''a'', Num NaN)])"
  by code_simp

text \<open>
  C2, amended: the two variants agree on \<open>undefined\<close>, \<open>null\<close>, the booleans, the finite
  numbers and every string that is not valid JSON text.
\<close>

theorem safeJSON_variants_agree:
  assumes "v = Undefined \<or> v = Null \<or> (\<exists>b. v = Bool b) \<or> (\<exists>m e. v = Num (Dec m e))
           \<or> (\<exists>s. v = Str s \<and> \<not> valid_JSON_text v)"
  shows "safeJSON v = safeJSON_part_000 v"
proof -
  consider "v = Undefined" | "v = Null" | b where "v = Bool b" | m e where "v = Num (Dec m e)"
    | s where "v = Str s" "\<not> valid_JSON_text v"
    using assms by blast
  then show ?thesis
  proof cases
    case 1
    then show ?thesis by (simp add: safeJSON_Undefined safeJSON_part_000_Undefined)
  next
    case 2
    then show ?thesis by (simp add: safeJSON_Null safeJSON_part_000_Null)
  next
    case 3
    then show ?thesis by (simp add: safeJSON_Bool safeJSON_part_000_Bool)
  next
    case 4
    then show ?thesis
      by (simp add: safeJSON_def safeJSON_part_000_def JSON_stringify_def JSON_parse_def)
  next
    case 5
    then show ?thesis
      by (simp add: safeJSON_Str safeJSON_part_000_Str valid_JSON_text_def)
  qed
qed

theorem safeJSON_variants_agree_witness:
  "\<not> valid_JSON_text (Str (lit ''not json''))
   \<and> safeJSON (Str (lit ''not json'')) = safeJSON_part_000 (Str (lit ''not json''))
   \<and> safeJSON (Num (Dec 42 0)) = safeJSON_part_000 (Num (Dec 42 0))"
proof -
  have h: "\<not> valid_JSON_text (Str (lit ''not json''))" by code_simp
  with safeJSON_variants_agree [of "Str (lit ''not json'')"]
    safeJSON_variants_agree [of "Num (Dec 42 0)"]
  show ?thesis by blast
qed

text \<open>
  C3. Roundtrip: for every JSON-serializable structured value \<open>s\<close>, \<open>safeJSON\<close> applied to
  the serialization of \<open>s\<close> is structurally equal to \<open>s\<close>, in both source variants.
  Evaluated at the object with the member \<open>id\<close> = 42: its serialization is the text
  \<^verbatim>\<open>{"id":42}\<close>; the variant that parses directly returns the object again; the variant
  that serializes first returns the text, which is not the object.
\<close>

theorem safeJSON_serialized_object_not_restored:
  \<open>JSON_stringify (Obj [(lit ''id'', Num (Dec 42 0))]) = Inr (Str (lit ''{"id":42}''))
   \<and> safeJSON_part_000 (Str (lit ''{"id":42}'')) = Obj [(lit ''id'', Num (Dec 42 0))]
   \<and> safeJSON (Str (lit ''{"id":42}'')) = Str (lit ''{"id":42}'')
   \<and> safeJSON (Str (lit ''{"id":42}'')) \<noteq> Obj [(lit ''id'', Num (Dec 42 0))]\<close>
  by code_simp

text \<open>
  C4, as stated: every value that is not valid JSON text, objects with members that
  cannot be serialized included, is returned unchanged. An object whose member is
  \<open>undefined\<close> is not JSON text, and the variant that serializes first returns it without
  that member.
\<close>

theorem safeJSON_drops_undefined_member:
  "\<not> valid_JSON_text (Obj [(lit ''a'', Undefined)])
   \<and> safeJSON (Obj [(lit ''a'', Undefined)]) = Obj []
   \<and> safeJSON (Obj [(lit ''a'', Undefined)]) \<noteq> Obj [(lit ''a'', Undefined)]"
  by code_simp

text \<open>
  C4, amended: \<open>undefined\<close>, \<open>null\<close> and every string that is not valid JSON text are
  returned unchanged by both variants; and whenever \<open>JSON.parse\<close> or \<open>JSON.stringify\<close>
  raises, whatever the input and whichever error, the function returns its input
  unchanged instead of raising.
\<close>

theorem safeJSON_passthrough:
  "(v = Undefined \<or> v = Null \<or> (\<exists>s. v = Str s \<and> \<not> valid_JSON_text v)
      \<longrightarrow> safeJSON v = v \<and> safeJSON_part_000 v = v)
   \<and> (JSON_parse v = Inl e \<longrightarrow> safeJSON_part_000 v = v)
   \<and> (JSON_stringify v = Inl e \<longrightarrow> safeJSON v = v)
   \<and> (JSON_stringify v = Inr t \<and> JSON_parse t = Inl e \<longrightarrow> safeJSON v = v)"
proof (intro conjI impI)
  assume a: "v = Undefined \<or> v = Null \<or> (\<exists>s. v = Str s \<and> \<not> valid_JSON_text v)"
  then show "safeJSON v = v"
    by (auto simp: safeJSON_Undefined safeJSON_Null safeJSON_Str)
  from a show "safeJSON_part_000 v = v"
    by (auto simp: safeJSON_part_000_Undefined safeJSON_part_000_Null safeJSON_part_000_Str
        valid_JSON_text_def)
qed (simp_all add: safeJSON_def safeJSON_part_000_def)

theorem safeJSON_passthrough_witness:
  "\<not> valid_JSON_text (Str (lit ''not json''))
   \<and> safeJSON (Str (lit ''not json'')) = Str (lit ''not json'')
   \<and> safeJSON_part_000 (Str (lit ''not json'')) = Str (lit ''not json'')
   \<and> JSON_parse (Str (lit ''not json'')) = Inl SyntaxError
   \<and> JSON_stringify (BigInt 3) = Inl TypeError
   \<and> safeJSON (BigInt 3) = BigInt 3
   \<and> JSON_stringify Undefined = Inr Undefined
   \<and> JSON_parse Undefined = Inl SyntaxError
   \<and> safeJSON Undefined = Undefined"
proof -
  have h1: "\<not> valid_JSON_text (Str (lit ''not json''))" by code_simp
  have h2: "JSON_parse (Str (lit ''not json'')) = Inl SyntaxError" by code_simp
  have h3: "JSON_stringify (BigInt 3) = Inl TypeError" by code_simp
  have h4: "JSON_stringify Undefined = Inr Undefined" by code_simp
  have h5: "JSON_parse Undefined = Inl SyntaxError" by code_simp
  from h1 h2 safeJSON_passthrough [of "Str (lit ''not json'')" SyntaxError]
  have "safeJSON (Str (lit ''not json'')) = Str (lit ''not json'')
      \<and> safeJSON_part_000 (Str (lit ''not json'')) = Str (lit ''not json'')" by blast
  moreover from h3 safeJSON_passthrough [of "BigInt 3" TypeError]
  have "safeJSON (BigInt 3) = BigInt 3" by blast
  moreover from h4 h5 safeJSON_passthrough [of Undefined SyntaxError Undefined]
  have "safeJSON Undefined = Undefined" by blast
  ultimately show ?thesis using h1 h2 h3 h4 h5 by blast
qed

section \<open>Properties of validateForm\<close>

text \<open>
  C5. With \<open>fullReturn = false\<close>, \<open>validateForm\<close> returns exactly the schema's validated
  data when the safe-parse succeeds and \<open>undefined\<close> when it fails: never the raw input
  (which is never \<open>undefined\<close>) and never an error object. Both source variants.
\<close>

theorem validateForm_minimal:
  assumes "formData request = Fulfilled fd"
  shows "(safeParse schema (safeJSON (FormData_get fd (lit ''data''))) = SafeParseSuccess d \<longrightarrow>
            validateForm request schema (Some False) = Fulfilled (Minimal d)
          \<and> validateForm_Class request schema (Some False) = Fulfilled (Minimal d))
       \<and> (safeParse schema (safeJSON (FormData_get fd (lit ''data''))) = SafeParseError e \<longrightarrow>
            validateForm request schema (Some False) = Fulfilled (Minimal Undefined)
          \<and> validateForm_Class request schema (Some False) = Fulfilled (Minimal Undefined)
          \<and> validateForm request schema (Some False)
              \<noteq> Fulfilled (Minimal (FormData_get fd (lit ''data'')))
          \<and> validateForm_Class request schema (Some False)
              \<noteq> Fulfilled (Minimal (FormData_get fd (lit ''data''))))"
  using assms FormData_get_defined [of fd "lit ''data''"]
  by (auto simp: validateForm_def validateForm_Class_def minimal_def)

theorem validateForm_minimal_witness:
  \<open>validateForm example_request any_schema (Some False)
     = Fulfilled (Minimal (Str (lit ''{"id":42}'')))
   \<and> validateForm_Class example_request any_schema (Some False)
     = Fulfilled (Minimal (Str (lit ''{"id":42}'')))
   \<and> validateForm example_request object_schema (Some False) = Fulfilled (Minimal Undefined)
   \<and> validateForm_Class example_request object_schema (Some False)
     = Fulfilled (Minimal Undefined)\<close>
proof -
  have f: "formData example_request = Fulfilled example_form"
    by (simp add: example_request_def)
  have a: \<open>safeParse any_schema (safeJSON (FormData_get example_form (lit ''data'')))
             = SafeParseSuccess (Str (lit ''{"id":42}''))\<close>
    by (simp add: any_schema_def example_normalized)
  have b: "safeParse object_schema (safeJSON (FormData_get example_form (lit ''data'')))
             = SafeParseError ''Expected object''"
    by (simp add: object_schema_def example_normalized)
  from validateForm_minimal [OF f, of any_schema] a
       validateForm_minimal [OF f, of object_schema] b
  show ?thesis by blast
qed

text \<open>
  C6. With \<open>fullReturn = true\<close>, \<open>validateForm\<close> returns the object that holds every field
  of the schema's safe-parse outcome and, under \<open>formData\<close>, the form container read from
  the request, whether the validation succeeded or failed. Both source variants.
\<close>

theorem validateForm_full:
  assumes "formData request = Fulfilled fd"
  shows "validateForm request schema (Some True)
           = Fulfilled (Full (safeParse schema (safeJSON (FormData_get fd (lit ''data'')))) fd)
       \<and> validateForm_Class request schema (Some True)
           = Fulfilled (Full (safeParse schema (safeJSON (FormData_get fd (lit ''data'')))) fd)"
  using assms by (simp add: validateForm_def validateForm_Class_def)

theorem validateForm_full_witness:
  \<open>validateForm example_request any_schema (Some True)
     = Fulfilled (Full (SafeParseSuccess (Str (lit ''{"id":42}''))) example_form)
   \<and> validateForm_Class example_request object_schema (Some True)
     = Fulfilled (Full (SafeParseError ''Expected object'') example_form)\<close>
proof -
  have f: "formData example_request = Fulfilled example_form"
    by (simp add: example_request_def)
  from validateForm_full [OF f, of any_schema] validateForm_full [OF f, of object_schema]
  show ?thesis by (simp add: any_schema_def object_schema_def example_normalized)
qed

text \<open>
  C7. When the form container has no field named \<open>data\<close>, \<open>validateForm\<close> does not fail:
  the field reads as \<open>null\<close>, the normalized value handed to the schema is \<open>null\<close>, and the
  result is shaped by the same two rules as for any other outcome of the schema.
\<close>

theorem validateForm_data_missing:
  assumes "formData request = Fulfilled fd" and "map_of fd (lit ''data'') = None"
  shows "FormData_get fd (lit ''data'') = Null
       \<and> safeJSON Null = Null \<and> safeJSON_part_000 Null = Null
       \<and> validateForm request schema (Some True) = Fulfilled (Full (safeParse schema Null) fd)
       \<and> validateForm request schema (Some False)
           = Fulfilled (Minimal (minimal (safeParse schema Null)))
       \<and> validateForm_Class request schema (Some True)
           = Fulfilled (Full (safeParse schema Null) fd)
       \<and> validateForm_Class request schema (Some False)
           = Fulfilled (Minimal (minimal (safeParse schema Null)))"
  using assms
  by (simp add: validateForm_def validateForm_Class_def FormData_get_absent safeJSON_Null
      safeJSON_part_000_Null)

theorem validateForm_data_missing_witness:
  "validateForm empty_request object_schema (Some True)
     = Fulfilled (Full (SafeParseError ''Expected object'') [(lit ''other'', Text (lit ''x''))])
   \<and> validateForm empty_request object_schema (Some False) = Fulfilled (Minimal Undefined)
   \<and> validateForm empty_request any_schema (Some False) = Fulfilled (Minimal Null)"
proof -
  have f: "formData empty_request = Fulfilled [(lit ''other'', Text (lit ''x''))]"
    by (simp add: empty_request_def)
  have m: "map_of [(lit ''other'', Text (lit ''x''))] (lit ''data'') = None"
    by code_simp
  from validateForm_data_missing [OF f m, of object_schema]
       validateForm_data_missing [OF f m, of any_schema]
  show ?thesis by (simp add: object_schema_def any_schema_def minimal_def)
qed

text \<open>
  C8. \<open>validateForm\<close> has no failure of its own: when reading the form body fails, the
  returned promise is rejected with the very reason of the read, and no result is
  produced; and the returned promise is rejected only then.
\<close>

theorem validateForm_rejection_propagates:
  "(formData request = Rejected reason \<longrightarrow>
      validateForm request schema fullReturn = Rejected reason
    \<and> validateForm_Class request schema fullReturn = Rejected reason)
   \<and> (validateForm request schema fullReturn = Rejected reason \<longrightarrow>
      formData request = Rejected reason)
   \<and> (validateForm_Class request schema fullReturn = Rejected reason \<longrightarrow>
      formData request = Rejected reason)"
  by (simp add: validateForm_def validateForm_Class_def Let_def split: Promise.split)

theorem validateForm_rejection_propagates_witness:
  "validateForm failed_request any_schema (Some False)
     = Rejected ''Failed to parse body as FormData''
   \<and> validateForm failed_request any_schema (Some True)
     = Rejected ''Failed to parse body as FormData''"
proof -
  have f: "formData failed_request = Rejected ''Failed to parse body as FormData''"
    by (simp add: failed_request_def)
  from validateForm_rejection_propagates [of failed_request _ any_schema] f
  show ?thesis by blast
qed

text \<open>
  C9. When the \<open>fullReturn\<close> argument is omitted the two source variants disagree: the one
  in \<^verbatim>\<open>src/util/validateForm.ts\<close> returns the minimal result, the one in
  \<^verbatim>\<open>src/type/Class.ts\<close> the full object. So their results differ for every request whose
  body can be read.
\<close>

theorem validateForm_omitted_flag_differs:
  assumes "formData request = Fulfilled fd"
  shows "validateForm request schema None
           = Fulfilled (Minimal (minimal (safeParse schema (safeJSON (FormData_get fd (lit ''data''))))))
       \<and> validateForm_Class request schema None
           = Fulfilled (Full (safeParse schema (safeJSON (FormData_get fd (lit ''data'')))) fd)
       \<and> validateForm request schema None \<noteq> validateForm_Class request schema None"
  using assms by (simp add: validateForm_def validateForm_Class_def)

theorem validateForm_omitted_flag_differs_witness:
  \<open>validateForm example_request any_schema None = Fulfilled (Minimal (Str (lit ''{"id":42}'')))
   \<and> validateForm_Class example_request any_schema None
     = Fulfilled (Full (SafeParseSuccess (Str (lit ''{"id":42}''))) example_form)
   \<and> validateForm example_request any_schema None
     \<noteq> validateForm_Class example_request any_schema None\<close>
proof -
  have f: "formData example_request = Fulfilled example_form"
    by (simp add: example_request_def)
  from validateForm_omitted_flag_differs [OF f, of any_schema]
  show ?thesis by (simp add: any_schema_def example_normalized minimal_def)
qed

text \<open>
  C10. In minimal mode \<open>undefined\<close> is ambiguous: a schema whose successful validation
  yields \<open>undefined\<close> makes \<open>validateForm\<close> with \<open>fullReturn = false\<close> return \<open>undefined\<close>,
  exactly what it returns for a schema that rejects the same request. Both source
  variants.
\<close>

theorem validateForm_minimal_undefined_ambiguous:
  assumes "formData request = Fulfilled fd"
    and "safeParse accepting (safeJSON (FormData_get fd (lit ''data''))) = SafeParseSuccess Undefined"
    and "safeParse rejecting (safeJSON (FormData_get fd (lit ''data''))) = SafeParseError e"
  shows "validateForm request accepting (Some False) = Fulfilled (Minimal Undefined)
       \<and> validateForm request rejecting (Some False) = validateForm request accepting (Some False)
       \<and> validateForm_Class request accepting (Some False) = Fulfilled (Minimal Undefined)
       \<and> validateForm_Class request rejecting (Some False)
           = validateForm_Class request accepting (Some False)"
  using assms by (simp add: validateForm_def validateForm_Class_def minimal_def)

theorem validateForm_minimal_undefined_ambiguous_witness:
  "safeParse undefined_schema (safeJSON (FormData_get example_form (lit ''data'')))
     = SafeParseSuccess Undefined
   \<and> safeParse never_schema (safeJSON (FormData_get example_form (lit ''data'')))
     = SafeParseError ''Invalid input''
   \<and> validateForm example_request undefined_schema (Some False) = Fulfilled (Minimal Undefined)
   \<and> validateForm example_request never_schema (Some False) = Fulfilled (Minimal Undefined)"
proof -
  have f: "formData example_request = Fulfilled example_form"
    by (simp add: example_request_def)
  have a: "safeParse undefined_schema (safeJSON (FormData_get example_form (lit ''data'')))
             = SafeParseSuccess Undefined"
    by (simp add: undefined_schema_def)
  have b: "safeParse never_schema (safeJSON (FormData_get example_form (lit ''data'')))
             = SafeParseError ''Invalid input''"
    by (simp add: never_schema_def)
  from validateForm_minimal_undefined_ambiguous [OF f a b] a b
  show ?thesis by simp
qed

end
